theory Spec2Isabelle
  imports Main
begin

section \<open>Python values, exceptions and the operations the code applies to them\<close>

text \<open>
  The request payloads, ticket data and tracker responses of the server are untyped Python
  dictionaries built from JSON. A value is one of the JSON shapes; a dictionary is an
  association list with string keys, read by \<open>map_of\<close> (keys are meant to be distinct).
  A Python character is one \<open>char\<close>, so the model covers text whose code points are
  below 256.
\<close>

datatype pyval =
    PNone
  | PBool bool
  | PInt int
  | PStr string
  | PList "pyval list"
  | PDict "(string \<times> pyval) list"

type_synonym pydict = "(string \<times> pyval) list"

text \<open>
  Every exception of the program is an instance of \<open>Exception\<close>; the constructor is the
  class that a handler can select on, the string is what \<open>str(e)\<close> gives.
  \<open>ExternalError\<close> stands for the classes raised by the collaborators (HTTP status
  errors, transport errors, errors of the model endpoint).
\<close>

datatype exn =
    AttributeError string
  | TypeError string
  | ValueError string
  | KeyError string
  | IndexError string
  | ExternalError string




definition apos :: string where
  "apos = [CHR 0x27]"

fun py_type_name :: "pyval \<Rightarrow> string" where
  "py_type_name PNone = ''NoneType''"
| "py_type_name (PBool b) = ''bool''"
| "py_type_name (PInt i) = ''int''"
| "py_type_name (PStr s) = ''str''"
| "py_type_name (PList xs) = ''list''"
| "py_type_name (PDict kvs) = ''dict''"

fun py_truthy :: "pyval \<Rightarrow> bool" where
  "py_truthy PNone = False"
| "py_truthy (PBool b) = b"
| "py_truthy (PInt i) = (i \<noteq> 0)"
| "py_truthy (PStr s) = (s \<noteq> [])"
| "py_truthy (PList xs) = (xs \<noteq> [])"
| "py_truthy (PDict kvs) = (kvs \<noteq> [])"

definition dict_get :: "pydict \<Rightarrow> string \<Rightarrow> pyval \<Rightarrow> pyval" where
  "dict_get d k dflt = (case map_of d k of Some v \<Rightarrow> v | None \<Rightarrow> dflt)"

text \<open>\<open>x.get(k, d)\<close> on a value that may not be a dictionary.\<close>

fun py_get :: "pyval \<Rightarrow> string \<Rightarrow> pyval \<Rightarrow> exn + pyval" where
  "py_get (PDict kvs) k dflt = Inr (dict_get kvs k dflt)"
| "py_get v k dflt =
     Inl (AttributeError (apos @ py_type_name v @ apos @ '' object has no attribute '' @ apos @ ''get'' @ apos))"

fun py_len :: "pyval \<Rightarrow> exn + nat" where
  "py_len (PStr s) = Inr (length s)"
| "py_len (PList xs) = Inr (length xs)"
| "py_len (PDict kvs) = Inr (length kvs)"
| "py_len v = Inl (TypeError (''object of type '' @ apos @ py_type_name v @ apos @ '' has no len()''))"

text \<open>
  \<open>x[:n]\<close>. Slicing a dictionary raises (a \<open>TypeError\<close> for the unhashable slice up to
  Python 3.11, a \<open>KeyError\<close> from 3.12 on); the model keeps the older class, and no
  caller of this function distinguishes the two.
\<close>

fun py_slice_prefix :: "pyval \<Rightarrow> nat \<Rightarrow> exn + pyval" where
  "py_slice_prefix (PStr s) n = Inr (PStr (take n s))"
| "py_slice_prefix (PList xs) n = Inr (PList (take n xs))"
| "py_slice_prefix (PDict kvs) n = Inl (TypeError (''unhashable type: '' @ apos @ ''slice'' @ apos))"
| "py_slice_prefix v n =
     Inl (TypeError (apos @ py_type_name v @ apos @ '' object is not subscriptable''))"

fun py_iter :: "pyval \<Rightarrow> exn + pyval list" where
  "py_iter (PList xs) = Inr xs"
| "py_iter (PStr s) = Inr (map (\<lambda>c. PStr [c]) s)"
| "py_iter (PDict kvs) = Inr (map (\<lambda>kv. PStr (fst kv)) kvs)"
| "py_iter v = Inl (TypeError (apos @ py_type_name v @ apos @ '' object is not iterable''))"

text \<open>\<open>x + "..."\<close> for a string literal on the right.\<close>

fun py_add_str :: "pyval \<Rightarrow> string \<Rightarrow> exn + pyval" where
  "py_add_str (PStr s) t = Inr (PStr (s @ t))"
| "py_add_str (PList xs) t =
     Inl (TypeError (''can only concatenate list (not '' @ [CHR 0x22] @ ''str'' @ [CHR 0x22] @ '') to list''))"
| "py_add_str v t =
     Inl (TypeError (''unsupported operand type(s) for +: '' @ apos @ py_type_name v @ apos
        @ '' and '' @ apos @ ''str'' @ apos))"

subsection \<open>\<open>str\<close> and \<open>repr\<close>\<close>

definition digit_char :: "nat \<Rightarrow> char" where
  "digit_char d = char_of (48 + d)"

fun str_of_nat :: "nat \<Rightarrow> string" where
  "str_of_nat n = (if n < 10 then [digit_char n] else str_of_nat (n div 10) @ [digit_char (n mod 10)])"

declare str_of_nat.simps [simp del]

definition str_of_int :: "int \<Rightarrow> string" where
  "str_of_int i = (if i < 0 then CHR ''-'' # str_of_nat (nat (- i)) else str_of_nat (nat i))"

fun py_join :: "string \<Rightarrow> string list \<Rightarrow> string" where
  "py_join sep [] = []"
| "py_join sep [x] = x"
| "py_join sep (x # y # ys) = x @ sep @ py_join sep (y # ys)"

definition py_printable :: "char \<Rightarrow> bool" where
  "py_printable c = (let n = (of_char c :: nat) in (32 \<le> n \<and> n < 127) \<or> (161 \<le> n \<and> n \<noteq> 173))"

definition hex_digit :: "nat \<Rightarrow> char" where
  "hex_digit d = (if d < 10 then char_of (48 + d) else char_of (87 + d))"

definition py_repr_char :: "char \<Rightarrow> char \<Rightarrow> string" where
  "py_repr_char q c =
     (if c = q \<or> c = CHR 0x5C then [CHR 0x5C, c]
      else if c = CHR 0x09 then [CHR 0x5C, CHR ''t'']
      else if c = CHR 0x0A then [CHR 0x5C, CHR ''n'']
      else if c = CHR 0x0D then [CHR 0x5C, CHR ''r'']
      else if py_printable c then [c]
      else [CHR 0x5C, CHR ''x'', hex_digit ((of_char c :: nat) div 16),
            hex_digit ((of_char c :: nat) mod 16)])"

definition py_repr_str :: "string \<Rightarrow> string" where
  "py_repr_str s =
     (let q = (if CHR 0x27 \<in> set s \<and> CHR 0x22 \<notin> set s then CHR 0x22 else CHR 0x27)
      in q # concat (map (py_repr_char q) s) @ [q])"

fun py_repr :: "pyval \<Rightarrow> string" where
  "py_repr PNone = ''None''"
| "py_repr (PBool b) = (if b then ''True'' else ''False'')"
| "py_repr (PInt i) = str_of_int i"
| "py_repr (PStr s) = py_repr_str s"
| "py_repr (PList xs) = ''['' @ py_join '', '' (map py_repr xs) @ '']''"
| "py_repr (PDict kvs) =
     ''{'' @ py_join '', '' (map (\<lambda>(k, v). py_repr_str k @ '': '' @ py_repr v) kvs) @ ''}''"

text \<open>What an f-string puts in place of \<open>{x}\<close>.\<close>

fun py_str :: "pyval \<Rightarrow> string" where
  "py_str (PStr s) = s"
| "py_str v = py_repr v"

text \<open>\<open>str.lower\<close> on code points below 256.\<close>

definition py_lower_char :: "char \<Rightarrow> char" where
  "py_lower_char c =
     (let n = (of_char c :: nat)
      in if (65 \<le> n \<and> n \<le> 90) \<or> (192 \<le> n \<and> n \<le> 222 \<and> n \<noteq> 215) then char_of (n + 32) else c)"

definition py_lower :: "string \<Rightarrow> string" where
  "py_lower s = map py_lower_char s"

text \<open>The text \<open>t\<close> occurs inside \<open>s\<close>.\<close>

definition contains :: "string \<Rightarrow> string \<Rightarrow> bool" where
  "contains s t = (\<exists>i \<in> set (upt 0 (Suc (length s))). take (length t) (drop i s) = t)"

section \<open>Persona and template registry (\<open>prompts.py\<close>)\<close>

datatype Persona =
    SENIOR_QA
  | SENIOR_DEV
  | SENIOR_PO
  | DEVELOPMENT_TEAM
  | SCRUM_MASTER
  | BUSINESS_ANALYST
  | SECURITY_ENGINEER
  | DEVOPS_ENGINEER
  | TECHNICAL_LEADER

fun persona_value :: "Persona \<Rightarrow> string" where
  "persona_value SENIOR_QA = ''Senior QA Technical Lead''"
| "persona_value SENIOR_DEV = ''Senior Developer Technical Lead''"
| "persona_value SENIOR_PO = ''Senior Product Owner''"
| "persona_value DEVELOPMENT_TEAM = ''Senior development team''"
| "persona_value SCRUM_MASTER = ''Senior Scrum Master''"
| "persona_value BUSINESS_ANALYST = ''Senior Business Analyst''"
| "persona_value SECURITY_ENGINEER = ''Senior Security Engineer''"
| "persona_value DEVOPS_ENGINEER = ''Senior Devops Engineer''"
| "persona_value TECHNICAL_LEADER = ''Senior Technical Lead''"

definition all_personas :: "Persona list" where
  "all_personas = [SENIOR_QA, SENIOR_DEV, SENIOR_PO, DEVELOPMENT_TEAM, SCRUM_MASTER,
     BUSINESS_ANALYST, SECURITY_ENGINEER, DEVOPS_ENGINEER, TECHNICAL_LEADER]"

record persona_context =
  introduction :: string
  style_guide :: string

record template =
  instructions :: string
  output_format :: string

text \<open>\<open>PromptBuilder._define_personas\<close>: the dictionary literal, entry by entry.\<close>

definition define_personas :: "(Persona \<times> persona_context) list" where
  "define_personas =
     [(SENIOR_QA,
       \<lparr>introduction =
          ''You are a Senior QA Engineer with 8+ years of experience in software testing, test automation, and quality assurance. You have deep expertise in:\<newline>''
          @ ''- Test strategy and planning\<newline>''
          @ ''- Test case design and execution\<newline>''
          @ ''- Risk assessment and mitigation\<newline>''
          @ ''- Quality metrics and reporting\<newline>''
          @ ''- Test automation frameworks\<newline>''
          @ ''- Performance and security testing'',
        style_guide =
          ''Provide analysis that is:\<newline>''
          @ ''- Thorough and methodical\<newline>''
          @ ''- Risk-focused with mitigation strategies\<newline>''
          @ ''- Includes specific test scenarios and cases\<newline>''
          @ ''- Considers edge cases and boundary conditions\<newline>''
          @ ''- Emphasizes quality gates and acceptance criteria\<newline>''
          @ ''- Uses testing terminology and best practices''\<rparr>),
      (SENIOR_DEV,
       \<lparr>introduction =
          ''You are a Senior Software Developer with 10+ years of experience in software architecture, design patterns, and implementation best practices.'',
        style_guide =
          ''Provide analysis that is technically detailed and accurate.''\<rparr>),
      (SENIOR_PO,
       \<lparr>introduction =
          ''You are a Senior Product Owner with 7+ years of experience in product development, requirements analysis, and stakeholder communication.'',
        style_guide =
          ''Provide analysis that is business-value focused and user-centric.''\<rparr>),
      (DEVELOPMENT_TEAM,
       \<lparr>introduction =
          ''You represent a cross-functional Development Team with collective expertise in development, testing, design, and delivery.'',
        style_guide =
          ''Provide analysis that is collaborative and team-oriented.''\<rparr>),
      (SCRUM_MASTER,
       \<lparr>introduction =
          ''You are an experienced Scrum Master with 6+ years of experience in Agile coaching and team facilitation.'',
        style_guide =
          ''Provide analysis that is process and workflow focused.''\<rparr>),
      (BUSINESS_ANALYST,
       \<lparr>introduction =
          ''You are a Senior Business Analyst with 8+ years of experience in requirements analysis and stakeholder communication.'',
        style_guide =
          ''Provide analysis that is process and workflow oriented.''\<rparr>),
      (TECHNICAL_LEADER,
       \<lparr>introduction =
          ''You are a Senior Technical Lead with deep expertise in debugging, root cause analysis, and system architecture.'',
        style_guide =
          ''Provide analysis that is technically rigorous and actionable.''\<rparr>)]"

text \<open>\<open>PromptBuilder._define_templates\<close>.\<close>

definition define_templates :: "(string \<times> template) list" where
  "define_templates =
     [(''test-cases'',
       \<lparr>instructions =
          ''Generate 8-12 comprehensive test cases for the ticket. Cover:\<newline>''
          @ ''\<newline>''
          @ ''1. **Happy Path** - Main user flows and expected behavior\<newline>''
          @ ''2. **Edge Cases** - Boundaries, empty/invalid inputs, and unusual conditions\<newline>''
          @ ''3. **Error Handling** - Invalid actions, system errors, and fallback behavior\<newline>''
          @ ''4. **Integration / E2E** - Cross-system workflows and complete user journeys\<newline>''
          @ ''\<newline>''
          @ ''Each test case should be specific, verifiable, and aligned with the ticket's goals.'',
        output_format =
          ''Format each test case as:\<newline>''
          @ ''**Scenario: [Title]**\<newline>''
          @ ''- **Given:** [Setup or context]\<newline>''
          @ ''- **When:** [Action taken]\<newline>''
          @ ''- **Then:** [Expected outcome]\<newline>''
          @ ''- **Priority:** [High/Medium/Low]''\<rparr>),
      (''comment-summary'',
       \<lparr>instructions =
          ''Summarize the Jira ticket comments. Extract:\<newline>''
          @ ''- Decisions made\<newline>''
          @ ''- Questions raised or resolved\<newline>''
          @ ''- Blockers or dependencies\<newline>''
          @ ''- Notable contributors'',
        output_format =
          ''Start with: Summary Of Comments In This Ticket\<newline>''
          @ ''Format as a bullet list of key insights.''\<rparr>),
      (''root-cause-analysis'',
       \<lparr>instructions =
          ''Perform a Root Cause Analysis (RCA) for the bug. Structure your analysis:\<newline>''
          @ ''\<newline>''
          @ ''**Root Cause** - What went wrong at a technical or process level\<newline>''
          @ ''**Contributing Factors** - Conditions that enabled the issue\<newline>''
          @ ''**Preventive Actions** - Steps to avoid recurrence'',
        output_format =
          ''Format using markdown:\<newline>''
          @ ''### Jira Ticket Overview\<newline>''
          @ ''### Root Cause\<newline>''
          @ ''### Contributing Factors\<newline>''
          @ ''### Preventive Actions''\<rparr>),
      (''reproduction-steps'',
       \<lparr>instructions =
          ''Write clear reproduction steps for the bug:\<newline>''
          @ ''\<newline>''
          @ ''**Environment Details** - Where the issue occurs\<newline>''
          @ ''**Step-by-Step Instructions** - Clear, sequential actions\<newline>''
          @ ''**Expected vs. Actual Behavior** - What should and does happen'',
        output_format =
          ''Format as:\<newline>''
          @ ''### Environment\<newline>''
          @ ''### Steps to Reproduce\<newline>''
          @ ''### Expected vs. Actual''\<rparr>),
      (''epic-analysis'',
       \<lparr>instructions =
          ''Analyze this epic for comprehensive planning:\<newline>''
          @ ''\<newline>''
          @ ''1. **Epic Scope and Objectives** - Business goals and success criteria\<newline>''
          @ ''2. **Story Breakdown Strategy** - Recommended decomposition\<newline>''
          @ ''3. **Release Planning Approach** - MVP and phased delivery\<newline>''
          @ ''4. **Success Metrics** - Key performance indicators'',
        output_format =
          ''Format as a comprehensive epic analysis with strategic recommendations.''\<rparr>),
      (''default'',
       \<lparr>instructions =
          ''Analyze this Jira ticket and provide comprehensive insights.'',
        output_format =
          ''Provide a structured analysis with clear sections.''\<rparr>)]"

fun persona_name :: "Persona \<Rightarrow> string" where
  "persona_name SENIOR_QA = ''SENIOR_QA''"
| "persona_name SENIOR_DEV = ''SENIOR_DEV''"
| "persona_name SENIOR_PO = ''SENIOR_PO''"
| "persona_name DEVELOPMENT_TEAM = ''DEVELOPMENT_TEAM''"
| "persona_name SCRUM_MASTER = ''SCRUM_MASTER''"
| "persona_name BUSINESS_ANALYST = ''BUSINESS_ANALYST''"
| "persona_name SECURITY_ENGINEER = ''SECURITY_ENGINEER''"
| "persona_name DEVOPS_ENGINEER = ''DEVOPS_ENGINEER''"
| "persona_name TECHNICAL_LEADER = ''TECHNICAL_LEADER''"

definition persona_repr :: "Persona \<Rightarrow> string" where
  "persona_repr p = ''<Persona.'' @ persona_name p @ '': '' @ py_repr_str (persona_value p) @ ''>''"

text \<open>
  \<open>d[k]\<close> on a registry: a missing key raises \<open>KeyError\<close>, whose text is the \<open>repr\<close>
  of the key. \<open>d.get(k, d[k0])\<close> evaluates the default \<open>d[k0]\<close> first, so it raises
  when \<open>k0\<close> is missing even if \<open>k\<close> is there.
\<close>

definition registry_index :: "('k \<Rightarrow> string) \<Rightarrow> ('k \<times> 'v) list \<Rightarrow> 'k \<Rightarrow> exn + 'v" where
  "registry_index key_repr d k =
     (case map_of d k of Some v \<Rightarrow> Inr v | None \<Rightarrow> Inl (KeyError (key_repr k)))"

definition registry_get :: "('k \<Rightarrow> string) \<Rightarrow> ('k \<times> 'v) list \<Rightarrow> 'k \<Rightarrow> 'k \<Rightarrow> exn + 'v" where
  "registry_get key_repr d k k0 =
     (case registry_index key_repr d k0 of
        Inl e \<Rightarrow> Inl e
      | Inr dflt \<Rightarrow> Inr (case map_of d k of Some v \<Rightarrow> v | None \<Rightarrow> dflt))"

section \<open>Prompt builder (\<open>prompts.py\<close>)\<close>

text \<open>
  The body of the loop of \<open>_format_ticket_context\<close> for one comment: the line
  \<open>"{i}. {author}: {content}\n"\<close>, or the exception raised on a comment that is not a
  dictionary or whose content has no length.
\<close>

definition format_comment_line :: "nat \<Rightarrow> pyval \<Rightarrow> exn + string" where
  "format_comment_line i comment =
     (case py_get comment ''author'' (PStr ''Unknown'') of
        Inl e \<Rightarrow> Inl e
      | Inr author \<Rightarrow>
     (case py_get comment ''content'' (PStr []) of
        Inl e \<Rightarrow> Inl e
      | Inr content \<Rightarrow>
     (case py_len content of
        Inl e \<Rightarrow> Inl e
      | Inr n \<Rightarrow>
     (case (if n > 200
            then (case py_slice_prefix content 200 of
                    Inl e \<Rightarrow> Inl e
                  | Inr pre \<Rightarrow> py_add_str pre ''...'')
            else Inr content) of
        Inl e \<Rightarrow> Inl e
      | Inr content' \<Rightarrow>
          Inr (str_of_nat i @ ''. '' @ py_str author @ '': '' @ py_str content' @ ''\<newline>'')))))"

text \<open>\<open>for i, comment in enumerate(..., i): formatted_context += ...\<close>\<close>

fun format_comments_loop :: "nat \<Rightarrow> pyval list \<Rightarrow> string \<Rightarrow> exn + string" where
  "format_comments_loop i [] formatted_context = Inr formatted_context"
| "format_comments_loop i (comment # rest) formatted_context =
     (case format_comment_line i comment of
        Inl e \<Rightarrow> Inl e
      | Inr line \<Rightarrow> format_comments_loop (Suc i) rest (formatted_context @ line))"

definition ticket_information :: "pydict \<Rightarrow> string" where
  "ticket_information ticket_data =
     (let ticket_key = dict_get ticket_data ''ticketKey'' (PStr ''Unknown'');
          title = dict_get ticket_data ''title'' (PStr ''No title provided'');
          description = dict_get ticket_data ''description'' (PStr ''No description available'');
          issue_type = dict_get ticket_data ''issueType'' (PStr ''story'')
      in ''\<newline>**Ticket Information:**\<newline>''
         @ ''- **Key:** '' @ py_str ticket_key @ ''\<newline>''
         @ ''- **Title:** '' @ py_str title @ ''\<newline>''
         @ ''- **Type:** '' @ py_str issue_type @ ''\<newline>''
         @ ''- **Description:** '' @ py_str description @ ''\<newline>'')"

text \<open>\<open>PromptBuilder._format_ticket_context\<close>; the \<open>context\<close> argument is not read.\<close>

definition format_ticket_context :: "pydict \<Rightarrow> pydict option \<Rightarrow> exn + string" where
  "format_ticket_context ticket_data context =
     (let comments = dict_get ticket_data ''comments'' (PList []);
          formatted_context = ticket_information ticket_data
      in if py_truthy comments
         then (case py_slice_prefix comments 3 of
                 Inl e \<Rightarrow> Inl e
               | Inr sl \<Rightarrow>
              (case py_iter sl of
                 Inl e \<Rightarrow> Inl e
               | Inr cs \<Rightarrow>
                   format_comments_loop 1 cs
                     (formatted_context @ ''\<newline>**Recent Comments:**\<newline>'')))
         else Inr formatted_context)"

text \<open>\<open>PromptBuilder._get_fallback_prompt\<close>\<close>

definition get_fallback_prompt :: "pydict \<Rightarrow> string \<Rightarrow> string" where
  "get_fallback_prompt ticket_data analysis_type =
     (let ticket_key = dict_get ticket_data ''ticketKey'' (PStr ''Unknown'');
          title = dict_get ticket_data ''title'' (PStr ''No title'')
      in ''Analyze the following Jira ticket for '' @ analysis_type @ '':\<newline>''
         @ ''\<newline>''
         @ ''Ticket: '' @ py_str ticket_key @ ''\<newline>''
         @ ''Title: '' @ py_str title @ ''\<newline>''
         @ ''Description: ''
         @ py_str (dict_get ticket_data ''description'' (PStr ''No description provided''))
         @ ''\<newline>''
         @ ''\<newline>''
         @ ''Please provide a detailed '' @ analysis_type
         @ '' analysis with specific recommendations.'')"

text \<open>
  The \<open>try\<close> block of \<open>build_analysis_prompt\<close>: registry lookups, context formatting and
  the five-block f-string.
\<close>

definition build_analysis_prompt_try ::
    "pydict \<Rightarrow> string \<Rightarrow> Persona \<Rightarrow> pydict option \<Rightarrow> exn + string" where
  "build_analysis_prompt_try ticket_data analysis_type persona context =
     (case registry_get persona_repr define_personas persona SENIOR_QA of
        Inl e \<Rightarrow> Inl e
      | Inr persona_context \<Rightarrow>
     (case registry_get py_repr_str define_templates analysis_type ''default'' of
        Inl e \<Rightarrow> Inl e
      | Inr template \<Rightarrow>
     (case format_ticket_context ticket_data context of
        Inl e \<Rightarrow> Inl e
      | Inr ticket_context \<Rightarrow>
          Inr (introduction persona_context @ ''\<newline>\<newline>''
               @ instructions template @ ''\<newline>\<newline>''
               @ ticket_context @ ''\<newline>\<newline>''
               @ output_format template @ ''\<newline>\<newline>''
               @ style_guide persona_context))))"

text \<open>
  \<open>PromptBuilder.build_analysis_prompt\<close>: \<open>except Exception\<close> turns every exception of
  the block into the fallback prompt. The result type keeps the exception side, so that
  "never raises" is a statement about this function and not a consequence of its type.
\<close>

definition build_analysis_prompt ::
    "pydict \<Rightarrow> string \<Rightarrow> Persona \<Rightarrow> pydict option \<Rightarrow> exn + string" where
  "build_analysis_prompt ticket_data analysis_type persona context =
     (case build_analysis_prompt_try ticket_data analysis_type persona context of
        Inr prompt \<Rightarrow> Inr prompt
      | Inl e \<Rightarrow> Inr (get_fallback_prompt ticket_data analysis_type))"






definition build_epic_analysis_prompt :: "pydict \<Rightarrow> Persona \<Rightarrow> exn + string" where
  "build_epic_analysis_prompt ticket_data persona =
     build_analysis_prompt ticket_data ''epic-analysis'' persona None"

section \<open>Issue-tracker client (\<open>clients/jira.py\<close>)\<close>

text \<open>
  The tracker is reached through one HTTP connection. A request is its verb, its path
  and its JSON payload (the query parameters for a GET). The connection is a function
  from the requests sent so far and the next request to what the call does: it raises
  (a transport error), or it gives a response, whose \<open>raise_for_status\<close> may raise and
  whose \<open>json\<close> may raise. Every operation takes the list of requests sent so far and
  returns it extended, so "no call was made" is "the list is unchanged".
  Creating the connection object (\<open>_get_client\<close>) sends nothing and is left out.
\<close>

datatype request = Request (http_method: string) (url: string) (payload: pyval)

record response =
  raise_for_status :: "exn option"
  json :: "exn + pyval"

type_synonym tracker = "request list \<Rightarrow> request \<Rightarrow> exn + response"

text \<open>
  The tables of \<open>config.py\<close>, which is not part of the repository (only
  \<open>config_example.py\<close> is): they are parameters of the client.
\<close>

record config =
  JIRA_FIELDS :: "(string \<times> string) list"
  JIRA_TRANSITIONS :: "(string \<times> pyval) list"
  TEST_RESULT_VALUES :: "(string \<times> pyval) list"

text \<open>The tables of \<open>config_example.py\<close>.\<close>

definition config_example :: config where
  "config_example =
     \<lparr>JIRA_FIELDS =
        [(''test_result'', ''customfield_XXXXX''),
         (''validator'', ''customfield_XXXXX''),
         (''team'', ''customfield_XXXXX'')],
      JIRA_TRANSITIONS =
        [(''backlog'', PStr ''XXX''),
         (''open'', PStr ''XXX''),
         (''in_progress'', PStr ''XXX''),
         (''resolved'', PStr ''XXX''),
         (''closed'', PStr ''XXX''),
         (''reopened'', PStr ''XXX'')],
      TEST_RESULT_VALUES =
        [(''pass'', PDict [(''id'', PStr ''XXXXX'')]),
         (''fail'', PDict [(''id'', PStr ''XXXXX'')]),
         (''in_progress'', PDict [(''id'', PStr ''XXXXX'')]),
         (''blocked'', PDict [(''value'', PStr ''Blocked'')]),
         (''not_tested'', PDict [(''value'', PStr ''Not Tested'')])]\<rparr>"

text \<open>The fallback tables of \<open>jira.py\<close>, used when \<open>config.py\<close> cannot be imported.\<close>

definition config_fallback :: config where
  "config_fallback =
     \<lparr>JIRA_FIELDS =
        [(''validator'', ''customfield_XXXXX''),
         (''test_result'', ''customfield_XXXXX''),
         (''team'', ''customfield_XXXXX'')],
      JIRA_TRANSITIONS = [],
      TEST_RESULT_VALUES = []\<rparr>"

text \<open>\<open>response = await client.put(...); response.raise_for_status()\<close>\<close>

definition send_checked :: "tracker \<Rightarrow> request \<Rightarrow> request list \<Rightarrow> (exn + response) \<times> request list" where
  "send_checked http req tr =
     (case http tr req of
        Inl e \<Rightarrow> (Inl e, tr @ [req])
      | Inr resp \<Rightarrow>
          (case raise_for_status resp of
             Some e \<Rightarrow> (Inl e, tr @ [req])
           | None \<Rightarrow> (Inr resp, tr @ [req])))"

text \<open>\<open>list(d.keys())\<close> inside an f-string.\<close>

definition keys_repr :: "(string \<times> 'v) list \<Rightarrow> string" where
  "keys_repr d = py_repr (PList (map (\<lambda>kv. PStr (fst kv)) d))"

definition get_issue :: "tracker \<Rightarrow> string \<Rightarrow> request list \<Rightarrow> (exn + pyval) \<times> request list" where
  "get_issue http issue_key tr =
     (case send_checked http (Request ''GET'' (''/issue/'' @ issue_key) PNone) tr of
        (Inl e, tr') \<Rightarrow> (Inl e, tr')
      | (Inr resp, tr') \<Rightarrow> (json resp, tr'))"

definition assign_issue :: "tracker \<Rightarrow> string \<Rightarrow> string \<Rightarrow> request list \<Rightarrow> (exn + pydict) \<times> request list" where
  "assign_issue http issue_key username tr =
     (case send_checked http
             (Request ''PUT'' (''/issue/'' @ issue_key @ ''/assignee'')
                (PDict [(''name'', PStr username)])) tr of
        (Inl e, tr') \<Rightarrow> (Inl e, tr')
      | (Inr resp, tr') \<Rightarrow>
          (Inr [(''status'', PStr ''success''), (''issue_key'', PStr issue_key),
                (''assignee'', PStr username)], tr'))"

definition set_validator ::
    "config \<Rightarrow> tracker \<Rightarrow> string \<Rightarrow> string \<Rightarrow> request list \<Rightarrow> (exn + pydict) \<times> request list" where
  "set_validator cfg http issue_key username tr =
     (case registry_index py_repr_str (JIRA_FIELDS cfg) ''validator'' of
        Inl e \<Rightarrow> (Inl e, tr)
      | Inr field \<Rightarrow>
     (case send_checked http
             (Request ''PUT'' (''/issue/'' @ issue_key)
                (PDict [(''fields'', PDict [(field, PDict [(''name'', PStr username)])])])) tr of
        (Inl e, tr') \<Rightarrow> (Inl e, tr')
      | (Inr resp, tr') \<Rightarrow>
          (Inr [(''status'', PStr ''success''), (''issue_key'', PStr issue_key),
                (''validator'', PStr username)], tr')))"

definition set_test_result ::
    "config \<Rightarrow> tracker \<Rightarrow> string \<Rightarrow> string \<Rightarrow> request list \<Rightarrow> (exn + pydict) \<times> request list" where
  "set_test_result cfg http issue_key result tr =
     (if py_lower result \<notin> set (map fst (TEST_RESULT_VALUES cfg))
      then (Inl (ValueError (''Invalid test result: '' @ result @ ''. Must be one of ''
                   @ keys_repr (TEST_RESULT_VALUES cfg))), tr)
      else
     (case registry_index py_repr_str (JIRA_FIELDS cfg) ''test_result'' of
        Inl e \<Rightarrow> (Inl e, tr)
      | Inr field \<Rightarrow>
     (case registry_index py_repr_str (TEST_RESULT_VALUES cfg) (py_lower result) of
        Inl e \<Rightarrow> (Inl e, tr)
      | Inr v \<Rightarrow>
     (case send_checked http
             (Request ''PUT'' (''/issue/'' @ issue_key) (PDict [(''fields'', PDict [(field, v)])])) tr of
        (Inl e, tr') \<Rightarrow> (Inl e, tr')
      | (Inr resp, tr') \<Rightarrow>
          (Inr [(''status'', PStr ''success''), (''issue_key'', PStr issue_key),
                (''test_result'', PStr result)], tr')))))"

definition add_comment :: "tracker \<Rightarrow> string \<Rightarrow> string \<Rightarrow> request list \<Rightarrow> (exn + pydict) \<times> request list" where
  "add_comment http issue_key comment tr =
     (case send_checked http
             (Request ''POST'' (''/issue/'' @ issue_key @ ''/comment'')
                (PDict [(''body'', PStr comment)])) tr of
        (Inl e, tr') \<Rightarrow> (Inl e, tr')
      | (Inr resp, tr') \<Rightarrow>
     (case json resp of
        Inl e \<Rightarrow> (Inl e, tr')
      | Inr data \<Rightarrow>
     (case py_get data ''id'' PNone of
        Inl e \<Rightarrow> (Inl e, tr')
      | Inr comment_id \<Rightarrow>
          (Inr [(''status'', PStr ''success''), (''issue_key'', PStr issue_key),
                (''comment_id'', comment_id)], tr'))))"

definition transition_issue ::
    "config \<Rightarrow> tracker \<Rightarrow> string \<Rightarrow> string \<Rightarrow> request list \<Rightarrow> (exn + pydict) \<times> request list" where
  "transition_issue cfg http issue_key transition_name tr =
     (let transition_id = dict_get (JIRA_TRANSITIONS cfg) (py_lower transition_name) PNone
      in if \<not> py_truthy transition_id
         then (Inl (ValueError (''Unknown transition: '' @ transition_name @ ''. ''
                      @ ''Must be one of '' @ keys_repr (JIRA_TRANSITIONS cfg))), tr)
         else
        (case send_checked http
                (Request ''POST'' (''/issue/'' @ issue_key @ ''/transitions'')
                   (PDict [(''transition'', PDict [(''id'', transition_id)])])) tr of
           (Inl e, tr') \<Rightarrow> (Inl e, tr')
         | (Inr resp, tr') \<Rightarrow>
             (Inr [(''status'', PStr ''success''), (''issue_key'', PStr issue_key),
                   (''transition'', PStr transition_name)], tr')))"

subsection \<open>The three workflows\<close>

text \<open>
  Each workflow returns three things: what the caller gets (the \<open>results\<close> dictionary,
  or the exception that left the function), the list \<open>results["operations"]\<close> as it
  stands when the function is left, and the requests sent. On an exception the
  dictionary, and the list with it, is dropped by Python; the model keeps the list so
  that its content at that moment can be stated.
\<close>

definition workflow_results :: "pydict \<Rightarrow> string list \<Rightarrow> pydict" where
  "workflow_results results operations =
     results @ [(''operations'', PList (map PStr operations)), (''status'', PStr ''success'')]"

definition claim_for_qa ::
    "config \<Rightarrow> tracker \<Rightarrow> string \<Rightarrow> string \<Rightarrow> request list
       \<Rightarrow> (exn + pydict) \<times> string list \<times> request list" where
  "claim_for_qa cfg http issue_key username tr =
     (let results = [(''issue_key'', PStr issue_key), (''username'', PStr username)];
          operations = []
      in case assign_issue http issue_key username tr of
           (Inl e, tr1) \<Rightarrow> (Inl e, operations, tr1)
         | (Inr r1, tr1) \<Rightarrow>
        (let operations = operations @ [''assigned'']
         in case set_validator cfg http issue_key username tr1 of
              (Inl e, tr2) \<Rightarrow> (Inl e, operations, tr2)
            | (Inr r2, tr2) \<Rightarrow>
           (let operations = operations @ [''validator_set'']
            in case set_test_result cfg http issue_key ''in_progress'' tr2 of
                 (Inl e, tr3) \<Rightarrow> (Inl e, operations, tr3)
               | (Inr r3, tr3) \<Rightarrow>
              (let operations = operations @ [''test_result_in_progress'']
               in (Inr (workflow_results results operations), operations, tr3)))))"

definition resolve_pass ::
    "config \<Rightarrow> tracker \<Rightarrow> string \<Rightarrow> string \<Rightarrow> request list
       \<Rightarrow> (exn + pydict) \<times> string list \<times> request list" where
  "resolve_pass cfg http issue_key comment tr =
     (let results = [(''issue_key'', PStr issue_key)];
          operations = []
      in case add_comment http issue_key comment tr of
           (Inl e, tr1) \<Rightarrow> (Inl e, operations, tr1)
         | (Inr r1, tr1) \<Rightarrow>
        (let operations = operations @ [''comment_added'']
         in case transition_issue cfg http issue_key ''resolved'' tr1 of
              (Inl e, tr2) \<Rightarrow> (Inl e, operations, tr2)
            | (Inr r2, tr2) \<Rightarrow>
           (let operations = operations @ [''transitioned_to_resolved'']
            in case set_test_result cfg http issue_key ''pass'' tr2 of
                 (Inl e, tr3) \<Rightarrow> (Inl e, operations, tr3)
               | (Inr r3, tr3) \<Rightarrow>
              (let operations = operations @ [''test_result_pass'']
               in (Inr (workflow_results results operations), operations, tr3)))))"

definition fail_and_reopen ::
    "config \<Rightarrow> tracker \<Rightarrow> string \<Rightarrow> string \<Rightarrow> request list
       \<Rightarrow> (exn + pydict) \<times> string list \<times> request list" where
  "fail_and_reopen cfg http issue_key comment tr =
     (let results = [(''issue_key'', PStr issue_key)];
          operations = []
      in case add_comment http issue_key comment tr of
           (Inl e, tr1) \<Rightarrow> (Inl e, operations, tr1)
         | (Inr r1, tr1) \<Rightarrow>
        (let operations = operations @ [''comment_added'']
         in case transition_issue cfg http issue_key ''reopened'' tr1 of
              (Inl e, tr2) \<Rightarrow> (Inl e, operations, tr2)
            | (Inr r2, tr2) \<Rightarrow>
           (let operations = operations @ [''transitioned_to_reopened'']
            in case set_test_result cfg http issue_key ''fail'' tr2 of
                 (Inl e, tr3) \<Rightarrow> (Inl e, operations, tr3)
               | (Inr r3, tr3) \<Rightarrow>
              (let operations = operations @ [''test_result_fail'']
               in (Inr (workflow_results results operations), operations, tr3)))))"


subsection \<open>\<open>JiraClient.get_issue_full\<close>\<close>











section \<open>Tool dispatch layer (\<open>server.py\<close>), issue-tracker tools\<close>












section \<open>Analysis handlers (\<open>handlers.py\<close>)\<close>







subsection \<open>\<open>TestCasesHandler\<close>, \<open>RootCauseHandler\<close>, \<open>ReproductionStepsHandler\<close>\<close>







subsection \<open>\<open>CommentSummaryHandler\<close>\<close>



subsection \<open>\<open>StoryAnalysisHandler\<close>\<close>











subsection \<open>\<open>EpicAnalysisHandler\<close>\<close>







section \<open>Notions of the specification and sample inputs\<close>

text \<open>
  The definitions of this section are not translations of code. They say what the
  specification means by a comment with a text body and by its truncated form, and they
  name the concrete inputs on which statements are evaluated.
\<close>












text \<open>Trackers and tables for concrete runs.\<close>

definition ok_response :: response where
  "ok_response = \<lparr>raise_for_status = None, json = Inr (PDict [(''id'', PStr ''10001'')])\<rparr>"

definition tracker_ok :: tracker where
  "tracker_ok tr req = Inr ok_response"

definition tracker_fail_at :: "nat \<Rightarrow> tracker" where
  "tracker_fail_at n tr req =
     (if length tr = n then Inl (ExternalError ''500 Internal Server Error'') else Inr ok_response)"

definition config_empty_id :: config where
  "config_empty_id = config_example\<lparr>JIRA_TRANSITIONS := [(''resolved'', PStr [])]\<rparr>"

definition echo_as :: "string \<Rightarrow> string \<Rightarrow> (exn + pydict) \<times> request list \<Rightarrow> (exn + pydict) \<times> request list" where
  "echo_as field s r =
     (case r of
        (Inl e, tr') \<Rightarrow> (Inl e, tr')
      | (Inr d, tr') \<Rightarrow> (Inr (map (\<lambda>kv. if fst kv = field then (field, PStr s) else kv) d), tr'))"

text \<open>
  The specification's words for a workflow: an ordered sequence of named steps; the log
  receives one entry per completed step; the first failing step ends the workflow.
\<close>

type_synonym step = "request list \<Rightarrow> (exn + pydict) \<times> request list"

fun run_steps ::
    "(string \<times> step) list \<Rightarrow> string list \<Rightarrow> request list \<Rightarrow> exn option \<times> string list \<times> request list" where
  "run_steps [] log tr = (None, log, tr)"
| "run_steps ((name, st) # rest) log tr =
     (case st tr of
        (Inl e, tr') \<Rightarrow> (Some e, log, tr')
      | (Inr r, tr') \<Rightarrow> run_steps rest (log @ [name]) tr')"

fun trace_after :: "(string \<times> step) list \<Rightarrow> nat \<Rightarrow> request list \<Rightarrow> request list" where
  "trace_after steps 0 tr = tr"
| "trace_after [] (Suc n) tr = tr"
| "trace_after ((name, st) # rest) (Suc n) tr = trace_after rest n (snd (st tr))"

definition step_result :: "(string \<times> step) list \<Rightarrow> nat \<Rightarrow> request list \<Rightarrow> exn + pydict" where
  "step_result steps n tr = fst (snd (steps ! n) (trace_after steps n tr))"

definition finish ::
    "pydict \<Rightarrow> exn option \<times> string list \<times> request list \<Rightarrow> (exn + pydict) \<times> string list \<times> request list" where
  "finish results r =
     (case r of
        (Some e, log, tr) \<Rightarrow> (Inl e, log, tr)
      | (None, log, tr) \<Rightarrow> (Inr (workflow_results results log), log, tr))"

definition claim_steps :: "config \<Rightarrow> tracker \<Rightarrow> string \<Rightarrow> string \<Rightarrow> (string \<times> step) list" where
  "claim_steps cfg http issue_key username =
     [(''assigned'', assign_issue http issue_key username),
      (''validator_set'', set_validator cfg http issue_key username),
      (''test_result_in_progress'', set_test_result cfg http issue_key ''in_progress'')]"

definition resolve_steps :: "config \<Rightarrow> tracker \<Rightarrow> string \<Rightarrow> string \<Rightarrow> (string \<times> step) list" where
  "resolve_steps cfg http issue_key comment =
     [(''comment_added'', add_comment http issue_key comment),
      (''transitioned_to_resolved'', transition_issue cfg http issue_key ''resolved''),
      (''test_result_pass'', set_test_result cfg http issue_key ''pass'')]"

definition fail_steps :: "config \<Rightarrow> tracker \<Rightarrow> string \<Rightarrow> string \<Rightarrow> (string \<times> step) list" where
  "fail_steps cfg http issue_key comment =
     [(''comment_added'', add_comment http issue_key comment),
      (''transitioned_to_reopened'', transition_issue cfg http issue_key ''reopened''),
      (''test_result_fail'', set_test_result cfg http issue_key ''fail'')]"














section \<open>Basic facts\<close>

subsection \<open>Occurrence of a text in another\<close>

lemma contains_iff: "contains s t \<longleftrightarrow> (\<exists>i \<le> length s. take (length t) (drop i s) = t)"
  unfolding contains_def by (simp del: upt_Suc add: Bex_def less_Suc_eq_le)

lemma contains_mid: "contains (x @ t @ y) t"
  unfolding contains_iff
  by (rule exI [where x = "length x"]) auto

lemma contains_append_left: "contains s t \<Longrightarrow> contains (x @ s) t"
  unfolding contains_iff
proof -
  assume "\<exists>i\<le>length s. take (length t) (drop i s) = t"
  then obtain i where i: "i \<le> length s" "take (length t) (drop i s) = t" by auto
  show "\<exists>i\<le>length (x @ s). take (length t) (drop i (x @ s)) = t"
    by (rule exI [where x = "length x + i"]) (use i in auto)
qed

lemma contains_append_right: "contains s t \<Longrightarrow> contains (s @ y) t"
  unfolding contains_iff
proof -
  assume "\<exists>i\<le>length s. take (length t) (drop i s) = t"
  then obtain i where i: "i \<le> length s" "take (length t) (drop i s) = t" by auto
  have "length (take (length t) (drop i s)) = length t" using i(2) by simp
  then have "length t \<le> length s - i" by simp
  then have "take (length t) (drop i (s @ y)) = t" using i by simp
  then show "\<exists>i\<le>length (s @ y). take (length t) (drop i (s @ y)) = t"
    using i(1) by (intro exI [where x = i]) auto
qed


subsection \<open>The registries\<close>

lemma persona_registry_keys: "map fst define_personas =
     [SENIOR_QA, SENIOR_DEV, SENIOR_PO, DEVELOPMENT_TEAM, SCRUM_MASTER, BUSINESS_ANALYST,
      TECHNICAL_LEADER]"
  by (simp add: define_personas_def)

lemma personas_keys: "map_of define_personas p = None \<longleftrightarrow> p = SECURITY_ENGINEER \<or> p = DEVOPS_ENGINEER"
  unfolding map_of_eq_None_iff persona_registry_keys [THEN arg_cong [where f = set], unfolded set_map]
  by (cases p) simp_all

lemma lookup_senior_qa: "\<exists>c. map_of define_personas SENIOR_QA = Some c"
  using personas_keys [of SENIOR_QA] by auto

lemma persona_lookup_total: "\<exists>c. registry_get persona_repr define_personas p SENIOR_QA = Inr c"
  using lookup_senior_qa by (auto simp add: registry_get_def registry_index_def)







subsection \<open>Context formatting\<close>



lemma format_comments_loop_raises:
  "format_comment_line i c = Inl e \<Longrightarrow> format_comments_loop i (c # cs) acc = Inl e"
  by simp



section \<open>Persona registry\<close>


section \<open>Prompt builder\<close>







section \<open>Comments in the ticket context\<close>



section \<open>Validation in the tracker client\<close>

lemma py_lower_char_idem: "py_lower_char (py_lower_char c) = py_lower_char c"
  unfolding py_lower_char_def Let_def by auto

lemma py_lower_idem: "py_lower (py_lower s) = py_lower s"
  by (simp add: py_lower_def py_lower_char_idem)

lemma contains_refl: "contains t t"
  using contains_mid [of "[]" t "[]"] by simp

lemma contains_py_join: "x \<in> set xs \<Longrightarrow> contains (py_join sep xs) x"
proof (induction sep xs rule: py_join.induct)
  case (1 sep)
  then show ?case by simp
next
  case (2 sep y)
  then show ?case by (simp add: contains_refl)
next
  case (3 sep y z zs)
  show ?case
  proof (cases "x = y")
    case True
    then show ?thesis using contains_mid [of "[]" y] by simp
  next
    case False
    then have "contains (py_join sep (z # zs)) x" using 3 by simp
    then show ?thesis using contains_append_left [of _ x "y @ sep"] by simp
  qed
qed

lemma keys_repr_lists_keys:
  "k \<in> set (map fst d) \<Longrightarrow> contains (keys_repr d) (py_repr_str k)"
proof -
  assume "k \<in> set (map fst d)"
  then have "py_repr_str k \<in> set (map py_repr (map (\<lambda>kv. PStr (fst kv)) d))" by force
  then have "contains (py_join '', '' (map py_repr (map (\<lambda>kv. PStr (fst kv)) d))) (py_repr_str k)"
    by (rule contains_py_join)
  then have "contains (''['' @ py_join '', '' (map py_repr (map (\<lambda>kv. PStr (fst kv)) d)) @ '']'')
      (py_repr_str k)"
    by (intro contains_append_left contains_append_right)
  then show ?thesis
    unfolding keys_repr_def by (simp del: map_map)
qed

text \<open>
  Claim C6. A test-result value whose lowercase form is not a key of the configured
  table makes \<open>set_test_result\<close> raise \<open>ValueError\<close> with the request list unchanged,
  and the message ends with the list of the configured keys. A transition name
  whose lowercase form is not a key of the configured transition table makes
  \<open>transition_issue\<close> raise in the same way, and that message lists the configured
  transition names. (The lookup of both functions is made on the lowercase form, which
  is how "not configured" is read here for the transition name too.) Each configured
  key occurs, in its \<open>repr\<close> form, in the list that the message carries.
\<close>

theorem C6_validation_fails_before_any_call:
  "(py_lower result \<notin> set (map fst (TEST_RESULT_VALUES cfg)) \<longrightarrow>
      set_test_result cfg http issue_key result tr =
        (Inl (ValueError (''Invalid test result: '' @ result @ ''. Must be one of ''
                          @ keys_repr (TEST_RESULT_VALUES cfg))), tr))
   \<and> (py_lower transition_name \<notin> set (map fst (JIRA_TRANSITIONS cfg)) \<longrightarrow>
      transition_issue cfg http issue_key transition_name tr =
        (Inl (ValueError (''Unknown transition: '' @ transition_name @ ''. Must be one of ''
                          @ keys_repr (JIRA_TRANSITIONS cfg))), tr))
   \<and> (\<forall>k \<in> set (map fst (TEST_RESULT_VALUES cfg)).
         contains (keys_repr (TEST_RESULT_VALUES cfg)) (py_repr_str k))
   \<and> (\<forall>k \<in> set (map fst (JIRA_TRANSITIONS cfg)).
         contains (keys_repr (JIRA_TRANSITIONS cfg)) (py_repr_str k))"
proof -
  have 1: "py_lower result \<notin> set (map fst (TEST_RESULT_VALUES cfg)) \<longrightarrow>
      set_test_result cfg http issue_key result tr =
        (Inl (ValueError (''Invalid test result: '' @ result @ ''. Must be one of ''
                          @ keys_repr (TEST_RESULT_VALUES cfg))), tr)"
    by (simp add: set_test_result_def)
  have 2: "py_lower transition_name \<notin> set (map fst (JIRA_TRANSITIONS cfg)) \<longrightarrow>
      transition_issue cfg http issue_key transition_name tr =
        (Inl (ValueError (''Unknown transition: '' @ transition_name @ ''. Must be one of ''
                          @ keys_repr (JIRA_TRANSITIONS cfg))), tr)"
  proof
    assume "py_lower transition_name \<notin> set (map fst (JIRA_TRANSITIONS cfg))"
    then have "map_of (JIRA_TRANSITIONS cfg) (py_lower transition_name) = None"
      by (simp add: map_of_eq_None_iff)
    then show "transition_issue cfg http issue_key transition_name tr =
        (Inl (ValueError (''Unknown transition: '' @ transition_name @ ''. Must be one of ''
                          @ keys_repr (JIRA_TRANSITIONS cfg))), tr)"
      by (simp add: transition_issue_def dict_get_def)
  qed
  show ?thesis using 1 2 keys_repr_lists_keys by blast
qed

text \<open>
  With the tables of \<open>config_example.py\<close>: the value \<open>maybe\<close> and the transition
  \<open>Deploy\<close>.
\<close>

theorem C6_validation_fails_before_any_call_witness:
  "py_lower ''maybe'' \<notin> set (map fst (TEST_RESULT_VALUES config_example))
   \<and> set_test_result config_example tracker_ok ''TEST-123'' ''maybe'' [] =
       (Inl (ValueError ''Invalid test result: maybe. Must be one of ['pass', 'fail', 'in_progress', 'blocked', 'not_tested']''), [])
   \<and> py_lower ''Deploy'' \<notin> set (map fst (JIRA_TRANSITIONS config_example))
   \<and> transition_issue config_example tracker_ok ''TEST-123'' ''Deploy'' [] =
       (Inl (ValueError ''Unknown transition: Deploy. Must be one of ['backlog', 'open', 'in_progress', 'resolved', 'closed', 'reopened']''), [])
   \<and> contains (keys_repr (TEST_RESULT_VALUES config_example)) (py_repr_str ''not_tested'')
   \<and> contains (keys_repr (JIRA_TRANSITIONS config_example)) (py_repr_str ''reopened'')"
proof -
  have a: "py_lower ''maybe'' \<notin> set (map fst (TEST_RESULT_VALUES config_example))" by code_simp
  have b: "py_lower ''Deploy'' \<notin> set (map fst (JIRA_TRANSITIONS config_example))" by code_simp
  have c: "''not_tested'' \<in> set (map fst (TEST_RESULT_VALUES config_example))" by code_simp
  have d: "''reopened'' \<in> set (map fst (JIRA_TRANSITIONS config_example))" by code_simp
  have k1: "keys_repr (TEST_RESULT_VALUES config_example) =
      ''['pass', 'fail', 'in_progress', 'blocked', 'not_tested']''" by code_simp
  have k2: "keys_repr (JIRA_TRANSITIONS config_example) =
      ''['backlog', 'open', 'in_progress', 'resolved', 'closed', 'reopened']''" by code_simp
  note T = C6_validation_fails_before_any_call
        [of "''maybe''" config_example tracker_ok "''TEST-123''" "[]" "''Deploy''"]
  have r1: "set_test_result config_example tracker_ok ''TEST-123'' ''maybe'' [] =
       (Inl (ValueError (''Invalid test result: '' @ ''maybe'' @ ''. Must be one of ''
          @ keys_repr (TEST_RESULT_VALUES config_example))), [])"
    using T a by blast
  have r2: "transition_issue config_example tracker_ok ''TEST-123'' ''Deploy'' [] =
       (Inl (ValueError (''Unknown transition: '' @ ''Deploy'' @ ''. Must be one of ''
          @ keys_repr (JIRA_TRANSITIONS config_example))), [])"
    using T b by blast
  have r3: "contains (keys_repr (TEST_RESULT_VALUES config_example)) (py_repr_str ''not_tested'')"
    using T c by blast
  have r4: "contains (keys_repr (JIRA_TRANSITIONS config_example)) (py_repr_str ''reopened'')"
    using T d by blast
  show ?thesis
    using a b r1 r2 r3 r4 unfolding k1 k2 by simp
qed

text \<open>
  Claim C10, as stated, at a transition table that maps \<open>resolved\<close> to the empty
  identifier: the name is configured, and \<open>transition_issue\<close> rejects it as unknown,
  because the test is \<open>if not transition_id\<close>.
\<close>

theorem C10_empty_transition_id_rejected_counterexample:
  "py_lower ''resolved'' \<in> set (map fst (JIRA_TRANSITIONS config_empty_id))
   \<and> transition_issue config_empty_id tracker_ok ''TEST-123'' ''resolved'' [] =
       (Inl (ValueError ''Unknown transition: resolved. Must be one of ['resolved']''), [])"
  by code_simp

lemma set_test_result_accepts:
  assumes "map_of (TEST_RESULT_VALUES cfg) (py_lower s) = Some v"
  shows "set_test_result cfg http issue_key s tr =
     (case registry_index py_repr_str (JIRA_FIELDS cfg) ''test_result'' of
        Inl e \<Rightarrow> (Inl e, tr)
      | Inr field \<Rightarrow>
          (case send_checked http
                  (Request ''PUT'' (''/issue/'' @ issue_key) (PDict [(''fields'', PDict [(field, v)])])) tr of
             (Inl e, tr') \<Rightarrow> (Inl e, tr')
           | (Inr resp, tr') \<Rightarrow>
               (Inr [(''status'', PStr ''success''), (''issue_key'', PStr issue_key),
                     (''test_result'', PStr s)], tr')))"
proof -
  have "py_lower s \<in> set (map fst (TEST_RESULT_VALUES cfg))"
    using assms by (metis map_of_eq_None_iff option.distinct(1) set_map)
  then show ?thesis
    using assms
    by (cases "map_of (JIRA_FIELDS cfg) ''test_result''")
       (simp_all add: set_test_result_def registry_index_def)
qed

lemma send_checked_trace: "snd (send_checked http req tr) = tr @ [req]"
  by (simp add: send_checked_def split: sum.splits option.splits)

lemma set_test_result_sends:
  assumes "map_of (TEST_RESULT_VALUES cfg) (py_lower s) = Some v"
    and "registry_index py_repr_str (JIRA_FIELDS cfg) ''test_result'' = Inr field"
    and "req = Request ''PUT'' (''/issue/'' @ issue_key) (PDict [(''fields'', PDict [(field, v)])])"
    and "send_checked http req tr = (r, tr')"
  shows "set_test_result cfg http issue_key s tr =
     (case r of
        Inl e \<Rightarrow> (Inl e, tr')
      | Inr resp \<Rightarrow>
          (Inr [(''status'', PStr ''success''), (''issue_key'', PStr issue_key),
                (''test_result'', PStr s)], tr'))"
  unfolding set_test_result_accepts [OF assms(1)] assms(2) sum.case assms(3) [symmetric] assms(4)
  by (cases r) simp_all

lemma echo_test_result:
  assumes "map_of (TEST_RESULT_VALUES cfg) (py_lower s) = Some v"
  shows "set_test_result cfg http issue_key s tr =
        echo_as ''test_result'' s (set_test_result cfg http issue_key (py_lower s) tr)"
proof -
  have v': "map_of (TEST_RESULT_VALUES cfg) (py_lower (py_lower s)) = Some v"
    using assms by (simp add: py_lower_idem)
  show ?thesis
  proof (cases "registry_index py_repr_str (JIRA_FIELDS cfg) ''test_result''")
    case (Inl e)
    then show ?thesis
      unfolding set_test_result_accepts [OF assms] set_test_result_accepts [OF v']
      by (simp add: echo_as_def)
  next
    case (Inr field)
    define req where
      "req = Request ''PUT'' (''/issue/'' @ issue_key) (PDict [(''fields'', PDict [(field, v)])])"
    obtain r tr' where sc: "send_checked http req tr = (r, tr')"
      by (cases "send_checked http req tr")
    show ?thesis
      unfolding set_test_result_sends [OF assms Inr req_def sc]
        set_test_result_sends [OF v' Inr req_def sc]
      by (cases r) (simp_all add: echo_as_def)
  qed
qed

lemma trace_test_result:
  assumes "map_of (JIRA_FIELDS cfg) ''test_result'' = Some field"
    and "map_of (TEST_RESULT_VALUES cfg) (py_lower s) = Some v"
  shows "snd (set_test_result cfg http issue_key s tr) =
     tr @ [Request ''PUT'' (''/issue/'' @ issue_key) (PDict [(''fields'', PDict [(field, v)])])]"
proof -
  define req where
    "req = Request ''PUT'' (''/issue/'' @ issue_key) (PDict [(''fields'', PDict [(field, v)])])"
  obtain r tr' where sc: "send_checked http req tr = (r, tr')"
    by (cases "send_checked http req tr")
  have tr': "tr' = tr @ [req]"
    using send_checked_trace [of http req tr] sc by simp
  have ri: "registry_index py_repr_str (JIRA_FIELDS cfg) ''test_result'' = Inr field"
    by (simp add: registry_index_def assms(1))
  show ?thesis
    unfolding set_test_result_sends [OF assms(2) ri req_def sc] tr' req_def [symmetric]
    by (cases r) simp_all
qed

lemma transition_issue_accepts:
  assumes "py_truthy (dict_get (JIRA_TRANSITIONS cfg) (py_lower s) PNone)"
  shows "transition_issue cfg http issue_key s tr =
     (case send_checked http
                (Request ''POST'' (''/issue/'' @ issue_key @ ''/transitions'')
                   (PDict [(''transition'',
                            PDict [(''id'', dict_get (JIRA_TRANSITIONS cfg) (py_lower s) PNone)])])) tr of
           (Inl e, tr') \<Rightarrow> (Inl e, tr')
         | (Inr resp, tr') \<Rightarrow>
             (Inr [(''status'', PStr ''success''), (''issue_key'', PStr issue_key),
                   (''transition'', PStr s)], tr'))"
  unfolding transition_issue_def Let_def using assms by (simp only: if_False not_True_eq_False)

lemma echo_transition:
  assumes "py_truthy (dict_get (JIRA_TRANSITIONS cfg) (py_lower s) PNone)"
  shows "transition_issue cfg http issue_key s tr =
        echo_as ''transition'' s (transition_issue cfg http issue_key (py_lower s) tr)"
proof -
  have t': "py_truthy (dict_get (JIRA_TRANSITIONS cfg) (py_lower (py_lower s)) PNone)"
    using assms by (simp add: py_lower_idem)
  define req where
    "req = Request ''POST'' (''/issue/'' @ issue_key @ ''/transitions'')
                   (PDict [(''transition'',
                            PDict [(''id'', dict_get (JIRA_TRANSITIONS cfg) (py_lower s) PNone)])])"
  obtain r tr' where sc: "send_checked http req tr = (r, tr')"
    by (cases "send_checked http req tr")
  show ?thesis
    unfolding transition_issue_accepts [OF assms] transition_issue_accepts [OF t']
      py_lower_idem req_def [symmetric] sc
    by (cases r) (simp_all add: echo_as_def)
qed

lemma trace_transition:
  assumes "py_truthy (dict_get (JIRA_TRANSITIONS cfg) (py_lower s) PNone)"
  shows "snd (transition_issue cfg http issue_key s tr) =
          tr @ [Request ''POST'' (''/issue/'' @ issue_key @ ''/transitions'')
                  (PDict [(''transition'',
                           PDict [(''id'', dict_get (JIRA_TRANSITIONS cfg) (py_lower s) PNone)])])]"
proof -
  define req where
    "req = Request ''POST'' (''/issue/'' @ issue_key @ ''/transitions'')
                   (PDict [(''transition'',
                            PDict [(''id'', dict_get (JIRA_TRANSITIONS cfg) (py_lower s) PNone)])])"
  obtain r tr' where sc: "send_checked http req tr = (r, tr')"
    by (cases "send_checked http req tr")
  have tr': "tr' = tr @ [req]"
    using send_checked_trace [of http req tr] sc by simp
  show ?thesis
    unfolding transition_issue_accepts [OF assms] req_def [symmetric] sc tr'
    by (cases r) simp_all
qed

text \<open>
  Claim C10, amended. For an input whose lowercase form is a configured test-result key,
  \<open>set_test_result\<close> does what it does for the lowercase key: the same request with
  the value of that key, the same outcome, and a result that differs only in echoing
  the name as it was given. For an input whose lowercase form is a configured
  transition name with a non-empty (truthy) identifier, \<open>transition_issue\<close> does what it
  does for the lowercase name, sending that identifier.
\<close>

theorem C10_validation_is_case_insensitive:
  "(py_lower s \<in> set (map fst (TEST_RESULT_VALUES cfg)) \<longrightarrow>
      set_test_result cfg http issue_key s tr =
        echo_as ''test_result'' s (set_test_result cfg http issue_key (py_lower s) tr)
      \<and> (\<forall>field v. map_of (JIRA_FIELDS cfg) ''test_result'' = Some field
                    \<and> map_of (TEST_RESULT_VALUES cfg) (py_lower s) = Some v \<longrightarrow>
            snd (set_test_result cfg http issue_key s tr) =
              tr @ [Request ''PUT'' (''/issue/'' @ issue_key) (PDict [(''fields'', PDict [(field, v)])])]))
   \<and> (py_truthy (dict_get (JIRA_TRANSITIONS cfg) (py_lower s) PNone) \<longrightarrow>
      transition_issue cfg http issue_key s tr =
        echo_as ''transition'' s (transition_issue cfg http issue_key (py_lower s) tr)
      \<and> snd (transition_issue cfg http issue_key s tr) =
          tr @ [Request ''POST'' (''/issue/'' @ issue_key @ ''/transitions'')
                  (PDict [(''transition'',
                           PDict [(''id'', dict_get (JIRA_TRANSITIONS cfg) (py_lower s) PNone)])])])"
proof (intro conjI impI allI)
  assume "py_lower s \<in> set (map fst (TEST_RESULT_VALUES cfg))"
  then obtain v where v: "map_of (TEST_RESULT_VALUES cfg) (py_lower s) = Some v"
    by (metis map_of_eq_None_iff not_Some_eq set_map)
  show "set_test_result cfg http issue_key s tr =
        echo_as ''test_result'' s (set_test_result cfg http issue_key (py_lower s) tr)"
    by (rule echo_test_result [OF v])
next
  fix field v
  assume "map_of (JIRA_FIELDS cfg) ''test_result'' = Some field
          \<and> map_of (TEST_RESULT_VALUES cfg) (py_lower s) = Some v"
  then show "snd (set_test_result cfg http issue_key s tr) =
              tr @ [Request ''PUT'' (''/issue/'' @ issue_key) (PDict [(''fields'', PDict [(field, v)])])]"
    using trace_test_result by blast
next
  assume "py_truthy (dict_get (JIRA_TRANSITIONS cfg) (py_lower s) PNone)"
  then show "transition_issue cfg http issue_key s tr =
        echo_as ''transition'' s (transition_issue cfg http issue_key (py_lower s) tr)"
    by (rule echo_transition)
next
  assume "py_truthy (dict_get (JIRA_TRANSITIONS cfg) (py_lower s) PNone)"
  then show "snd (transition_issue cfg http issue_key s tr) =
          tr @ [Request ''POST'' (''/issue/'' @ issue_key @ ''/transitions'')
                  (PDict [(''transition'',
                           PDict [(''id'', dict_get (JIRA_TRANSITIONS cfg) (py_lower s) PNone)])])]"
    by (rule trace_transition)
qed

text \<open>
  With the tables of \<open>config_example.py\<close>: \<open>In_Progress\<close> and \<open>RESOLVED\<close>.
\<close>

theorem C10_validation_is_case_insensitive_witness:
  "py_lower ''In_Progress'' \<in> set (map fst (TEST_RESULT_VALUES config_example))
   \<and> set_test_result config_example tracker_ok ''TEST-123'' ''In_Progress'' [] =
       (Inr [(''status'', PStr ''success''), (''issue_key'', PStr ''TEST-123''),
             (''test_result'', PStr ''In_Progress'')],
        [Request ''PUT'' ''/issue/TEST-123''
           (PDict [(''fields'', PDict [(''customfield_XXXXX'', PDict [(''id'', PStr ''XXXXX'')])])])])
   \<and> py_truthy (dict_get (JIRA_TRANSITIONS config_example) (py_lower ''RESOLVED'') PNone)
   \<and> transition_issue config_example tracker_ok ''TEST-123'' ''RESOLVED'' [] =
       (Inr [(''status'', PStr ''success''), (''issue_key'', PStr ''TEST-123''),
             (''transition'', PStr ''RESOLVED'')],
        [Request ''POST'' ''/issue/TEST-123/transitions''
           (PDict [(''transition'', PDict [(''id'', PStr ''XXX'')])])])"
proof -
  have a: "py_lower ''In_Progress'' \<in> set (map fst (TEST_RESULT_VALUES config_example))"
    by code_simp
  have b: "py_truthy (dict_get (JIRA_TRANSITIONS config_example) (py_lower ''RESOLVED'') PNone)"
    by code_simp
  have l1: "set_test_result config_example tracker_ok ''TEST-123'' (py_lower ''In_Progress'') [] =
       (Inr [(''status'', PStr ''success''), (''issue_key'', PStr ''TEST-123''),
             (''test_result'', PStr ''in_progress'')],
        [Request ''PUT'' ''/issue/TEST-123''
           (PDict [(''fields'', PDict [(''customfield_XXXXX'', PDict [(''id'', PStr ''XXXXX'')])])])])"
    by code_simp
  have l2: "transition_issue config_example tracker_ok ''TEST-123'' (py_lower ''RESOLVED'') [] =
       (Inr [(''status'', PStr ''success''), (''issue_key'', PStr ''TEST-123''),
             (''transition'', PStr ''resolved'')],
        [Request ''POST'' ''/issue/TEST-123/transitions''
           (PDict [(''transition'', PDict [(''id'', PStr ''XXX'')])])])"
    by code_simp
  note T = C10_validation_is_case_insensitive
             [of _ config_example tracker_ok "''TEST-123''" "[]"]
  have r1: "set_test_result config_example tracker_ok ''TEST-123'' ''In_Progress'' [] =
        echo_as ''test_result'' ''In_Progress''
          (set_test_result config_example tracker_ok ''TEST-123'' (py_lower ''In_Progress'') [])"
    using T [of "''In_Progress''"] a by blast
  have r2: "transition_issue config_example tracker_ok ''TEST-123'' ''RESOLVED'' [] =
        echo_as ''transition'' ''RESOLVED''
          (transition_issue config_example tracker_ok ''TEST-123'' (py_lower ''RESOLVED'') [])"
    using T [of "''RESOLVED''"] b by blast
  show ?thesis
    using a b r1 r2 unfolding l1 l2 by (simp add: echo_as_def)
qed

section \<open>Workflows\<close>

lemma step_result_0: "step_result ((name, st) # rest) 0 tr = fst (st tr)"
  by (simp add: step_result_def)

lemma step_result_Suc: "step_result ((name, st) # rest) (Suc i) tr = step_result rest i (snd (st tr))"
  by (simp add: step_result_def)

lemma run_steps_fail:
  "n < length steps \<Longrightarrow> (\<forall>i<n. \<not> isl (step_result steps i tr)) \<Longrightarrow>
   step_result steps n tr = Inl e \<Longrightarrow>
   run_steps steps log tr = (Some e, log @ map fst (take n steps), trace_after steps (Suc n) tr)"
proof (induction steps arbitrary: n log tr)
  case Nil
  then show ?case by simp
next
  case (Cons s rest)
  obtain name st where s: "s = (name, st)" by (cases s)
  obtain r tr1 where st: "st tr = (r, tr1)" by (cases "st tr")
  show ?case
  proof (cases n)
    case 0
    then have "r = Inl e" using Cons.prems(3) by (simp add: s step_result_0 st)
    then show ?thesis using 0 by (simp add: s st)
  next
    case (Suc m)
    have "\<not> isl (step_result (s # rest) 0 tr)" using Cons.prems(2) Suc by blast
    then obtain d where r: "r = Inr d" by (cases r) (simp_all add: s step_result_0 st)
    have m: "m < length rest" using Cons.prems(1) Suc by simp
    have ok: "\<forall>i<m. \<not> isl (step_result rest i tr1)"
    proof (intro allI impI)
      fix i assume "i < m"
      then have "\<not> isl (step_result (s # rest) (Suc i) tr)" using Cons.prems(2) Suc by simp
      then show "\<not> isl (step_result rest i tr1)" by (simp add: s step_result_Suc st)
    qed
    have fl: "step_result rest m tr1 = Inl e"
      using Cons.prems(3) Suc by (simp add: s step_result_Suc st)
    show ?thesis
      using Cons.IH [OF m ok fl, of "log @ [name]"] by (simp add: s st r Suc)
  qed
qed

lemma run_steps_ok:
  "(\<forall>i<length steps. \<not> isl (step_result steps i tr)) \<Longrightarrow>
   run_steps steps log tr = (None, log @ map fst steps, trace_after steps (length steps) tr)"
proof (induction steps arbitrary: log tr)
  case Nil
  then show ?case by simp
next
  case (Cons s rest)
  obtain name st where s: "s = (name, st)" by (cases s)
  obtain r tr1 where st: "st tr = (r, tr1)" by (cases "st tr")
  have "\<not> isl (step_result (s # rest) 0 tr)" using Cons.prems by simp
  then obtain d where r: "r = Inr d" by (cases r) (simp_all add: s step_result_0 st)
  have ok: "\<forall>i<length rest. \<not> isl (step_result rest i tr1)"
  proof (intro allI impI)
    fix i assume "i < length rest"
    then have "\<not> isl (step_result (s # rest) (Suc i) tr)" using Cons.prems by simp
    then show "\<not> isl (step_result rest i tr1)" by (simp add: s step_result_Suc st)
  qed
  show ?case using Cons.IH [OF ok, of "log @ [name]"] by (simp add: s st r)
qed

lemma claim_for_qa_refines:
  "claim_for_qa cfg http issue_key username tr =
     finish [(''issue_key'', PStr issue_key), (''username'', PStr username)]
       (run_steps (claim_steps cfg http issue_key username) [] tr)"
proof -
  obtain r1 tr1 where 1: "assign_issue http issue_key username tr = (r1, tr1)"
    by (cases "assign_issue http issue_key username tr")
  obtain r2 tr2 where 2: "set_validator cfg http issue_key username tr1 = (r2, tr2)"
    by (cases "set_validator cfg http issue_key username tr1")
  obtain r3 tr3 where 3: "set_test_result cfg http issue_key ''in_progress'' tr2 = (r3, tr3)"
    by (cases "set_test_result cfg http issue_key ''in_progress'' tr2")
  show ?thesis
    unfolding claim_for_qa_def claim_steps_def Let_def
    by (cases r1; cases r2; cases r3) (simp_all add: 1 2 3 finish_def)
qed

lemma resolve_pass_refines:
  "resolve_pass cfg http issue_key comment tr =
     finish [(''issue_key'', PStr issue_key)]
       (run_steps (resolve_steps cfg http issue_key comment) [] tr)"
proof -
  obtain r1 tr1 where 1: "add_comment http issue_key comment tr = (r1, tr1)"
    by (cases "add_comment http issue_key comment tr")
  obtain r2 tr2 where 2: "transition_issue cfg http issue_key ''resolved'' tr1 = (r2, tr2)"
    by (cases "transition_issue cfg http issue_key ''resolved'' tr1")
  obtain r3 tr3 where 3: "set_test_result cfg http issue_key ''pass'' tr2 = (r3, tr3)"
    by (cases "set_test_result cfg http issue_key ''pass'' tr2")
  show ?thesis
    unfolding resolve_pass_def resolve_steps_def Let_def
    by (cases r1; cases r2; cases r3) (simp_all add: 1 2 3 finish_def)
qed

lemma fail_and_reopen_refines:
  "fail_and_reopen cfg http issue_key comment tr =
     finish [(''issue_key'', PStr issue_key)]
       (run_steps (fail_steps cfg http issue_key comment) [] tr)"
proof -
  obtain r1 tr1 where 1: "add_comment http issue_key comment tr = (r1, tr1)"
    by (cases "add_comment http issue_key comment tr")
  obtain r2 tr2 where 2: "transition_issue cfg http issue_key ''reopened'' tr1 = (r2, tr2)"
    by (cases "transition_issue cfg http issue_key ''reopened'' tr1")
  obtain r3 tr3 where 3: "set_test_result cfg http issue_key ''fail'' tr2 = (r3, tr3)"
    by (cases "set_test_result cfg http issue_key ''fail'' tr2")
  show ?thesis
    unfolding fail_and_reopen_def fail_steps_def Let_def
    by (cases r1; cases r2; cases r3) (simp_all add: 1 2 3 finish_def)
qed

lemma assign_issue_trace:
  "snd (assign_issue http issue_key username tr) =
     tr @ [Request ''PUT'' (''/issue/'' @ issue_key @ ''/assignee'') (PDict [(''name'', PStr username)])]"
proof -
  define req where
    "req = Request ''PUT'' (''/issue/'' @ issue_key @ ''/assignee'') (PDict [(''name'', PStr username)])"
  obtain r tr' where sc: "send_checked http req tr = (r, tr')"
    by (cases "send_checked http req tr")
  have tr': "tr' = tr @ [req]" using send_checked_trace [of http req tr] sc by simp
  show ?thesis
    unfolding assign_issue_def req_def [symmetric] sc tr' by (cases r) simp_all
qed

lemma set_validator_ok:
  assumes "set_validator cfg http issue_key username tr = (Inr d, tr')"
  shows "\<exists>field. map_of (JIRA_FIELDS cfg) ''validator'' = Some field \<and>
           tr' = tr @ [Request ''PUT'' (''/issue/'' @ issue_key)
                         (PDict [(''fields'', PDict [(field, PDict [(''name'', PStr username)])])])]"
proof (cases "map_of (JIRA_FIELDS cfg) ''validator''")
  case None
  then show ?thesis using assms by (simp add: set_validator_def registry_index_def)
next
  case (Some field)
  define req where
    "req = Request ''PUT'' (''/issue/'' @ issue_key)
                         (PDict [(''fields'', PDict [(field, PDict [(''name'', PStr username)])])])"
  obtain r tr0 where sc: "send_checked http req tr = (r, tr0)"
    by (cases "send_checked http req tr")
  have tr0: "tr0 = tr @ [req]" using send_checked_trace [of http req tr] sc by simp
  have ri: "registry_index py_repr_str (JIRA_FIELDS cfg) ''validator'' = Inr field"
    by (simp add: registry_index_def Some)
  have "snd (set_validator cfg http issue_key username tr) = tr @ [req]"
    unfolding set_validator_def ri sum.case req_def [symmetric] sc tr0 by (cases r) simp_all
  then show ?thesis using assms Some by (simp add: req_def)
qed

lemma set_test_result_ok:
  assumes "set_test_result cfg http issue_key s tr = (Inr d, tr')"
  shows "\<exists>field v. map_of (JIRA_FIELDS cfg) ''test_result'' = Some field \<and>
           map_of (TEST_RESULT_VALUES cfg) (py_lower s) = Some v \<and>
           tr' = tr @ [Request ''PUT'' (''/issue/'' @ issue_key) (PDict [(''fields'', PDict [(field, v)])])]"
proof (cases "py_lower s \<in> set (map fst (TEST_RESULT_VALUES cfg))")
  case False
  then show ?thesis using assms by (simp add: set_test_result_def)
next
  case True
  then obtain v where v: "map_of (TEST_RESULT_VALUES cfg) (py_lower s) = Some v"
    by (metis map_of_eq_None_iff not_Some_eq set_map)
  show ?thesis
  proof (cases "map_of (JIRA_FIELDS cfg) ''test_result''")
    case None
    then show ?thesis
      using assms unfolding set_test_result_accepts [OF v] by (simp add: registry_index_def)
  next
    case (Some field)
    show ?thesis using trace_test_result [OF Some v, of http issue_key tr] assms Some v by simp
  qed
qed

lemma add_comment_trace:
  "snd (add_comment http issue_key comment tr) =
     tr @ [Request ''POST'' (''/issue/'' @ issue_key @ ''/comment'') (PDict [(''body'', PStr comment)])]"
proof -
  define req where
    "req = Request ''POST'' (''/issue/'' @ issue_key @ ''/comment'') (PDict [(''body'', PStr comment)])"
  obtain r tr' where sc: "send_checked http req tr = (r, tr')"
    by (cases "send_checked http req tr")
  have tr': "tr' = tr @ [req]" using send_checked_trace [of http req tr] sc by simp
  show ?thesis
    unfolding add_comment_def req_def [symmetric] sc tr'
    by (cases r) (simp_all split: sum.splits)
qed

lemma transition_issue_ok:
  assumes "transition_issue cfg http issue_key s tr = (Inr d, tr')"
  shows "py_truthy (dict_get (JIRA_TRANSITIONS cfg) (py_lower s) PNone) \<and>
         tr' = tr @ [Request ''POST'' (''/issue/'' @ issue_key @ ''/transitions'')
                  (PDict [(''transition'',
                           PDict [(''id'', dict_get (JIRA_TRANSITIONS cfg) (py_lower s) PNone)])])]"
proof (cases "py_truthy (dict_get (JIRA_TRANSITIONS cfg) (py_lower s) PNone)")
  case False
  then show ?thesis using assms by (simp add: transition_issue_def)
next
  case True
  show ?thesis using trace_transition [OF True, of http issue_key tr] assms True by simp
qed

lemma lower_in_progress: "py_lower ''in_progress'' = ''in_progress''" by code_simp
lemma lower_resolved: "py_lower ''resolved'' = ''resolved''" by code_simp
lemma lower_reopened: "py_lower ''reopened'' = ''reopened''" by code_simp
lemma lower_pass: "py_lower ''pass'' = ''pass''" by code_simp
lemma lower_fail: "py_lower ''fail'' = ''fail''" by code_simp

lemma claim_for_qa_success:
  assumes "claim_for_qa cfg http issue_key username tr = (Inr d, log, tr')"
  shows "log = [''assigned'', ''validator_set'', ''test_result_in_progress'']
       \<and> d = workflow_results [(''issue_key'', PStr issue_key), (''username'', PStr username)] log
       \<and> (\<exists>validator_field test_result_field v.
             map_of (JIRA_FIELDS cfg) ''validator'' = Some validator_field
           \<and> map_of (JIRA_FIELDS cfg) ''test_result'' = Some test_result_field
           \<and> map_of (TEST_RESULT_VALUES cfg) ''in_progress'' = Some v
           \<and> tr' = tr @
               [Request ''PUT'' (''/issue/'' @ issue_key @ ''/assignee'') (PDict [(''name'', PStr username)]),
                Request ''PUT'' (''/issue/'' @ issue_key)
                  (PDict [(''fields'', PDict [(validator_field, PDict [(''name'', PStr username)])])]),
                Request ''PUT'' (''/issue/'' @ issue_key)
                  (PDict [(''fields'', PDict [(test_result_field, v)])])])"
proof -
  obtain r1 tr1 where 1: "assign_issue http issue_key username tr = (r1, tr1)"
    by (cases "assign_issue http issue_key username tr")
  obtain r2 tr2 where 2: "set_validator cfg http issue_key username tr1 = (r2, tr2)"
    by (cases "set_validator cfg http issue_key username tr1")
  obtain r3 tr3 where 3: "set_test_result cfg http issue_key ''in_progress'' tr2 = (r3, tr3)"
    by (cases "set_test_result cfg http issue_key ''in_progress'' tr2")
  have all: "(\<exists>d1. r1 = Inr d1) \<and> (\<exists>d2. r2 = Inr d2) \<and> (\<exists>d3. r3 = Inr d3)
      \<and> log = [''assigned'', ''validator_set'', ''test_result_in_progress'']
      \<and> d = workflow_results [(''issue_key'', PStr issue_key), (''username'', PStr username)] log
      \<and> tr' = tr3"
    using assms unfolding claim_for_qa_def Let_def
    by (cases r1; cases r2; cases r3) (simp_all add: 1 2 3)
  then obtain d2 d3 where r: "r2 = Inr d2" "r3 = Inr d3" by blast
  have t1: "tr1 = tr @ [Request ''PUT'' (''/issue/'' @ issue_key @ ''/assignee'') (PDict [(''name'', PStr username)])]"
    using assign_issue_trace [of http issue_key username tr] 1 by simp
  obtain vf where vf: "map_of (JIRA_FIELDS cfg) ''validator'' = Some vf"
      "tr2 = tr1 @ [Request ''PUT'' (''/issue/'' @ issue_key)
                         (PDict [(''fields'', PDict [(vf, PDict [(''name'', PStr username)])])])]"
    using set_validator_ok [OF 2 [unfolded r]] by blast
  obtain tf v where tf: "map_of (JIRA_FIELDS cfg) ''test_result'' = Some tf"
      "map_of (TEST_RESULT_VALUES cfg) ''in_progress'' = Some v"
      "tr3 = tr2 @ [Request ''PUT'' (''/issue/'' @ issue_key) (PDict [(''fields'', PDict [(tf, v)])])]"
    using set_test_result_ok [OF 3 [unfolded r]] unfolding lower_in_progress by blast
  show ?thesis using all t1 vf tf by simp
qed

lemma resolve_pass_success:
  assumes "resolve_pass cfg http issue_key comment tr = (Inr d, log, tr')"
  shows "log = [''comment_added'', ''transitioned_to_resolved'', ''test_result_pass'']
       \<and> d = workflow_results [(''issue_key'', PStr issue_key)] log
       \<and> length (drop (length tr) tr') = 3 \<and> take (length tr) tr' = tr"
proof -
  obtain r1 tr1 where 1: "add_comment http issue_key comment tr = (r1, tr1)"
    by (cases "add_comment http issue_key comment tr")
  obtain r2 tr2 where 2: "transition_issue cfg http issue_key ''resolved'' tr1 = (r2, tr2)"
    by (cases "transition_issue cfg http issue_key ''resolved'' tr1")
  obtain r3 tr3 where 3: "set_test_result cfg http issue_key ''pass'' tr2 = (r3, tr3)"
    by (cases "set_test_result cfg http issue_key ''pass'' tr2")
  have all: "(\<exists>d1. r1 = Inr d1) \<and> (\<exists>d2. r2 = Inr d2) \<and> (\<exists>d3. r3 = Inr d3)
      \<and> log = [''comment_added'', ''transitioned_to_resolved'', ''test_result_pass'']
      \<and> d = workflow_results [(''issue_key'', PStr issue_key)] log
      \<and> tr' = tr3"
    using assms unfolding resolve_pass_def Let_def
    by (cases r1; cases r2; cases r3) (simp_all add: 1 2 3)
  then obtain d2 d3 where r: "r2 = Inr d2" "r3 = Inr d3" by blast
  have t1: "\<exists>q. tr1 = tr @ [q]"
    using add_comment_trace [of http issue_key comment tr] 1 by simp
  have t2: "\<exists>q. tr2 = tr1 @ [q]" using transition_issue_ok [OF 2 [unfolded r]] by blast
  have t3: "\<exists>q. tr3 = tr2 @ [q]" using set_test_result_ok [OF 3 [unfolded r]] by blast
  show ?thesis using all t1 t2 t3 by auto
qed

lemma fail_and_reopen_success:
  assumes "fail_and_reopen cfg http issue_key comment tr = (Inr d, log, tr')"
  shows "log = [''comment_added'', ''transitioned_to_reopened'', ''test_result_fail'']
       \<and> d = workflow_results [(''issue_key'', PStr issue_key)] log
       \<and> length (drop (length tr) tr') = 3 \<and> take (length tr) tr' = tr"
proof -
  obtain r1 tr1 where 1: "add_comment http issue_key comment tr = (r1, tr1)"
    by (cases "add_comment http issue_key comment tr")
  obtain r2 tr2 where 2: "transition_issue cfg http issue_key ''reopened'' tr1 = (r2, tr2)"
    by (cases "transition_issue cfg http issue_key ''reopened'' tr1")
  obtain r3 tr3 where 3: "set_test_result cfg http issue_key ''fail'' tr2 = (r3, tr3)"
    by (cases "set_test_result cfg http issue_key ''fail'' tr2")
  have all: "(\<exists>d1. r1 = Inr d1) \<and> (\<exists>d2. r2 = Inr d2) \<and> (\<exists>d3. r3 = Inr d3)
      \<and> log = [''comment_added'', ''transitioned_to_reopened'', ''test_result_fail'']
      \<and> d = workflow_results [(''issue_key'', PStr issue_key)] log
      \<and> tr' = tr3"
    using assms unfolding fail_and_reopen_def Let_def
    by (cases r1; cases r2; cases r3) (simp_all add: 1 2 3)
  then obtain d2 d3 where r: "r2 = Inr d2" "r3 = Inr d3" by blast
  have t1: "\<exists>q. tr1 = tr @ [q]"
    using add_comment_trace [of http issue_key comment tr] 1 by simp
  have t2: "\<exists>q. tr2 = tr1 @ [q]" using transition_issue_ok [OF 2 [unfolded r]] by blast
  have t3: "\<exists>q. tr3 = tr2 @ [q]" using set_test_result_ok [OF 3 [unfolded r]] by blast
  show ?thesis using all t1 t2 t3 by auto
qed

text \<open>
  Claim C5. Each workflow is the run of its three named steps in order, where a step
  that raises ends the run and a step that returns appends its name to the log
  (\<open>run_steps\<close>, after the specification's words). Hence: when the first \<open>n\<close> steps
  return and step \<open>n + 1\<close> raises, the log is the names of the first \<open>n\<close> steps and
  nothing more; when all return, it is all the names. When Claim-for-QA succeeds its
  log is \<open>["assigned", "validator_set", "test_result_in_progress"]\<close> and it has sent
  exactly three requests: the assignment, the validator field, the test-result field
  with the value configured for \<open>in_progress\<close>. Resolve-as-Pass and Fail-and-Reopen
  have a log of three entries when they succeed. The log is the list as it stands
  when the function is left; on an exception Python drops it with the \<open>results\<close>
  dictionary, and the caller gets the exception only.
\<close>

theorem C5_operation_log_records_completed_steps:
  "claim_for_qa cfg http issue_key username tr =
     finish [(''issue_key'', PStr issue_key), (''username'', PStr username)]
       (run_steps (claim_steps cfg http issue_key username) [] tr)
   \<and> resolve_pass cfg http issue_key comment tr =
     finish [(''issue_key'', PStr issue_key)]
       (run_steps (resolve_steps cfg http issue_key comment) [] tr)
   \<and> fail_and_reopen cfg http issue_key comment tr =
     finish [(''issue_key'', PStr issue_key)]
       (run_steps (fail_steps cfg http issue_key comment) [] tr)
   \<and> (\<forall>steps n e.
         n < length steps \<and> (\<forall>i<n. \<not> isl (step_result steps i tr)) \<and> step_result steps n tr = Inl e \<longrightarrow>
         run_steps steps [] tr = (Some e, map fst (take n steps), trace_after steps (Suc n) tr))
   \<and> (\<forall>steps.
         (\<forall>i<length steps. \<not> isl (step_result steps i tr)) \<longrightarrow>
         run_steps steps [] tr = (None, map fst steps, trace_after steps (length steps) tr))
   \<and> (\<forall>d log tr'.
         claim_for_qa cfg http issue_key username tr = (Inr d, log, tr') \<longrightarrow>
           log = [''assigned'', ''validator_set'', ''test_result_in_progress'']
         \<and> d = workflow_results [(''issue_key'', PStr issue_key), (''username'', PStr username)] log
         \<and> (\<exists>validator_field test_result_field v.
               map_of (JIRA_FIELDS cfg) ''validator'' = Some validator_field
             \<and> map_of (JIRA_FIELDS cfg) ''test_result'' = Some test_result_field
             \<and> map_of (TEST_RESULT_VALUES cfg) ''in_progress'' = Some v
             \<and> tr' = tr @
                 [Request ''PUT'' (''/issue/'' @ issue_key @ ''/assignee'') (PDict [(''name'', PStr username)]),
                  Request ''PUT'' (''/issue/'' @ issue_key)
                    (PDict [(''fields'', PDict [(validator_field, PDict [(''name'', PStr username)])])]),
                  Request ''PUT'' (''/issue/'' @ issue_key)
                    (PDict [(''fields'', PDict [(test_result_field, v)])])]))
   \<and> (\<forall>d log tr'.
         resolve_pass cfg http issue_key comment tr = (Inr d, log, tr') \<longrightarrow>
           log = [''comment_added'', ''transitioned_to_resolved'', ''test_result_pass''])
   \<and> (\<forall>d log tr'.
         fail_and_reopen cfg http issue_key comment tr = (Inr d, log, tr') \<longrightarrow>
           log = [''comment_added'', ''transitioned_to_reopened'', ''test_result_fail''])"
proof -
  have 4: "\<forall>steps n e.
         n < length steps \<and> (\<forall>i<n. \<not> isl (step_result steps i tr)) \<and> step_result steps n tr = Inl e \<longrightarrow>
         run_steps steps [] tr = (Some e, map fst (take n steps), trace_after steps (Suc n) tr)"
    using run_steps_fail [where log = "[]" and tr = tr] by simp
  have 5: "\<forall>steps.
         (\<forall>i<length steps. \<not> isl (step_result steps i tr)) \<longrightarrow>
         run_steps steps [] tr = (None, map fst steps, trace_after steps (length steps) tr)"
    using run_steps_ok [where log = "[]" and tr = tr] by simp
  have 7: "\<forall>d log tr'.
         resolve_pass cfg http issue_key comment tr = (Inr d, log, tr') \<longrightarrow>
           log = [''comment_added'', ''transitioned_to_resolved'', ''test_result_pass'']"
    using resolve_pass_success by blast
  have 8: "\<forall>d log tr'.
         fail_and_reopen cfg http issue_key comment tr = (Inr d, log, tr') \<longrightarrow>
           log = [''comment_added'', ''transitioned_to_reopened'', ''test_result_fail'']"
    using fail_and_reopen_success by blast
  show ?thesis
    by (intro conjI claim_for_qa_refines resolve_pass_refines fail_and_reopen_refines 4 5 7 8)
       (use claim_for_qa_success in blast)
qed

text \<open>
  Claim-for-QA on \<open>TEST-123\<close> for \<open>alice\<close>, against a tracker that fails the second
  request: the log holds \<open>assigned\<close> only, and two requests were sent.
\<close>

theorem C5_operation_log_records_completed_steps_witness:
  "1 < length (claim_steps config_example (tracker_fail_at 1) ''TEST-123'' ''alice'')
   \<and> \<not> isl (step_result (claim_steps config_example (tracker_fail_at 1) ''TEST-123'' ''alice'') 0 [])
   \<and> step_result (claim_steps config_example (tracker_fail_at 1) ''TEST-123'' ''alice'') 1 [] =
       Inl (ExternalError ''500 Internal Server Error'')
   \<and> claim_for_qa config_example (tracker_fail_at 1) ''TEST-123'' ''alice'' [] =
       (Inl (ExternalError ''500 Internal Server Error''), [''assigned''],
        [Request ''PUT'' ''/issue/TEST-123/assignee'' (PDict [(''name'', PStr ''alice'')]),
         Request ''PUT'' ''/issue/TEST-123''
           (PDict [(''fields'', PDict [(''customfield_XXXXX'', PDict [(''name'', PStr ''alice'')])])])])
   \<and> claim_for_qa config_example tracker_ok ''TEST-123'' ''alice'' [] =
       (Inr (workflow_results [(''issue_key'', PStr ''TEST-123''), (''username'', PStr ''alice'')]
               [''assigned'', ''validator_set'', ''test_result_in_progress'']),
        [''assigned'', ''validator_set'', ''test_result_in_progress''],
        [Request ''PUT'' ''/issue/TEST-123/assignee'' (PDict [(''name'', PStr ''alice'')]),
         Request ''PUT'' ''/issue/TEST-123''
           (PDict [(''fields'', PDict [(''customfield_XXXXX'', PDict [(''name'', PStr ''alice'')])])]),
         Request ''PUT'' ''/issue/TEST-123''
           (PDict [(''fields'', PDict [(''customfield_XXXXX'', PDict [(''id'', PStr ''XXXXX'')])])])])
   \<and> fst (snd (resolve_pass config_example tracker_ok ''TEST-123'' ''verified'' [])) =
       [''comment_added'', ''transitioned_to_resolved'', ''test_result_pass'']
   \<and> fst (snd (fail_and_reopen config_example tracker_ok ''TEST-123'' ''broken'' [])) =
       [''comment_added'', ''transitioned_to_reopened'', ''test_result_fail'']"
proof -
  define steps where "steps = claim_steps config_example (tracker_fail_at 1) ''TEST-123'' ''alice''"
  have a: "1 < length steps" by (simp add: steps_def claim_steps_def)
  have b0: "\<not> isl (step_result steps 0 [])" unfolding steps_def by code_simp
  have b: "\<forall>i<1. \<not> isl (step_result steps i [])" using b0 by simp
  have c: "step_result steps 1 [] = Inl (ExternalError ''500 Internal Server Error'')"
    unfolding steps_def by code_simp
  have t: "trace_after steps (Suc 1) [] =
       [Request ''PUT'' ''/issue/TEST-123/assignee'' (PDict [(''name'', PStr ''alice'')]),
         Request ''PUT'' ''/issue/TEST-123''
           (PDict [(''fields'', PDict [(''customfield_XXXXX'', PDict [(''name'', PStr ''alice'')])])])]"
    unfolding steps_def by code_simp
  have m: "map fst (take 1 steps) = [''assigned'']" by (simp add: steps_def claim_steps_def)
  note T = C5_operation_log_records_completed_steps
      [of config_example "tracker_fail_at 1" "''TEST-123''" "''alice''" "[]" "[]"]
  have run: "run_steps steps [] [] =
      (Some (ExternalError ''500 Internal Server Error''), map fst (take 1 steps), trace_after steps (Suc 1) [])"
    using T a b c by blast
  have "claim_for_qa config_example (tracker_fail_at 1) ''TEST-123'' ''alice'' [] =
          finish [(''issue_key'', PStr ''TEST-123''), (''username'', PStr ''alice'')] (run_steps steps [] [])"
    using T unfolding steps_def by blast
  then have "claim_for_qa config_example (tracker_fail_at 1) ''TEST-123'' ''alice'' [] =
       (Inl (ExternalError ''500 Internal Server Error''), [''assigned''],
        [Request ''PUT'' ''/issue/TEST-123/assignee'' (PDict [(''name'', PStr ''alice'')]),
         Request ''PUT'' ''/issue/TEST-123''
           (PDict [(''fields'', PDict [(''customfield_XXXXX'', PDict [(''name'', PStr ''alice'')])])])])"
    unfolding run m t by (simp add: finish_def)
  moreover have "claim_for_qa config_example tracker_ok ''TEST-123'' ''alice'' [] =
       (Inr (workflow_results [(''issue_key'', PStr ''TEST-123''), (''username'', PStr ''alice'')]
               [''assigned'', ''validator_set'', ''test_result_in_progress'']),
        [''assigned'', ''validator_set'', ''test_result_in_progress''],
        [Request ''PUT'' ''/issue/TEST-123/assignee'' (PDict [(''name'', PStr ''alice'')]),
         Request ''PUT'' ''/issue/TEST-123''
           (PDict [(''fields'', PDict [(''customfield_XXXXX'', PDict [(''name'', PStr ''alice'')])])]),
         Request ''PUT'' ''/issue/TEST-123''
           (PDict [(''fields'', PDict [(''customfield_XXXXX'', PDict [(''id'', PStr ''XXXXX'')])])])])"
    by code_simp
  moreover have "fst (snd (resolve_pass config_example tracker_ok ''TEST-123'' ''verified'' [])) =
       [''comment_added'', ''transitioned_to_resolved'', ''test_result_pass'']"
    by code_simp
  moreover have "fst (snd (fail_and_reopen config_example tracker_ok ''TEST-123'' ''broken'' [])) =
       [''comment_added'', ''transitioned_to_reopened'', ''test_result_fail'']"
    by code_simp
  ultimately show ?thesis using a b0 c unfolding steps_def by blast
qed

section \<open>Analysis handlers\<close>
























section \<open>Epic analysis\<close>











section \<open>Tool dispatch layer\<close>











end
